theory Spec2Isabelle
  imports Main
begin

section \<open>The JavaScript runtime the scheduling code runs on\<close>

text \<open>
  A \<open>Date\<close> object is its time value: the milliseconds since the epoch, in UTC.  The
  local accessors (\<open>getDate\<close>, \<open>setHours\<close>, ...) go through the host's local time,
  which is taken to be a fixed offset \<open>tz\<close> (in milliseconds, local = UTC + tz) from
  UTC.  The calendar functions follow the ECMAScript definitions (\<open>Day\<close>,
  \<open>TimeWithinDay\<close>, \<open>DayFromYear\<close>, \<open>YearFromTime\<close>, \<open>MonthFromTime\<close>,
  \<open>DateFromTime\<close>, \<open>MakeDay\<close>, \<open>MakeTime\<close>).  \<open>Invalid Date\<close> only arises from
  parsing, and is the value \<open>None\<close> of a parse.
\<close>

type_synonym jsdate = int

definition msPerDay :: int where
  "msPerDay = 86400000"

definition msPerHour :: int where
  "msPerHour = 3600000"

definition msPerMinute :: int where
  "msPerMinute = 60000"

definition Day :: "int \<Rightarrow> int" where
  "Day t = t div msPerDay"

definition TimeWithinDay :: "int \<Rightarrow> int" where
  "TimeWithinDay t = t mod msPerDay"

definition LocalTime :: "int \<Rightarrow> jsdate \<Rightarrow> int" where
  "LocalTime tz t = t + tz"

definition UTC :: "int \<Rightarrow> int \<Rightarrow> jsdate" where
  "UTC tz l = l - tz"

definition DayFromYear :: "int \<Rightarrow> int" where
  "DayFromYear y =
     365 * (y - 1970) + (y - 1969) div 4 - (y - 1901) div 100 + (y - 1601) div 400"

definition InLeapYear :: "int \<Rightarrow> bool" where
  "InLeapYear y = (y mod 4 = 0 \<and> (y mod 100 \<noteq> 0 \<or> y mod 400 = 0))"

text \<open>
  \<open>YearFromTime\<close>: the largest year whose first day is not after the given day,
  searched upwards from a year that is not after it.
\<close>

function yearSearch :: "int \<Rightarrow> int \<Rightarrow> int" where
  "yearSearch d y = (if DayFromYear (y + 1) \<le> d then yearSearch d (y + 1) else y)"
  by pat_completeness auto
termination
proof (relation "measure (\<lambda>(d, y). nat (d - DayFromYear y))")
  show "wf (measure (\<lambda>(d, y). nat (d - DayFromYear y)))"
    by simp
next
  fix d y :: int
  assume le: "DayFromYear (y + 1) \<le> d"
  have a: "(y - 1969) div 4 \<le> (y + 1 - 1969) div 4"
    by (rule zdiv_mono1) simp_all
  have b: "(y + 1 - 1901) div 100 \<le> (y - 1901) div 100 + 1"
    by presburger
  have c: "(y - 1601) div 400 \<le> (y + 1 - 1601) div 400"
    by (rule zdiv_mono1) simp_all
  have "p \<le> p' \<Longrightarrow> q' \<le> q + 1 \<Longrightarrow> r \<le> r'
      \<Longrightarrow> 365 * (y - 1970) + p - q + r < 365 * (y + 1 - 1970) + p' - q' + r'"
    for p p' q q' r r' :: int
    by (simp add: algebra_simps)
  from this [OF a b c] have "DayFromYear y < DayFromYear (y + 1)"
    unfolding DayFromYear_def .
  with le show "((d, y + 1), (d, y)) \<in> measure (\<lambda>(d, y). nat (d - DayFromYear y))"
    by simp
qed

declare yearSearch.simps [simp del]

definition YearFromDay :: "int \<Rightarrow> int" where
  "YearFromDay d = yearSearch d (1970 + (if 0 \<le> d then d div 366 else d div 365))"

text \<open>The day of the year on which month \<open>m\<close> (0 = January) starts.\<close>

definition monthStart :: "bool \<Rightarrow> int \<Rightarrow> int" where
  "monthStart leap m =
     (let l = (if leap then 1 else 0) in
      if m = 0 then 0 else if m = 1 then 31 else if m = 2 then 59 + l
      else if m = 3 then 90 + l else if m = 4 then 120 + l else if m = 5 then 151 + l
      else if m = 6 then 181 + l else if m = 7 then 212 + l else if m = 8 then 243 + l
      else if m = 9 then 273 + l else if m = 10 then 304 + l else 334 + l)"

definition DayWithinYear :: "int \<Rightarrow> int" where
  "DayWithinYear d = d - DayFromYear (YearFromDay d)"

definition MonthFromDay :: "int \<Rightarrow> int" where
  "MonthFromDay d =
     (let leap = InLeapYear (YearFromDay d); w = DayWithinYear d in
      if w < monthStart leap 1 then 0 else if w < monthStart leap 2 then 1
      else if w < monthStart leap 3 then 2 else if w < monthStart leap 4 then 3
      else if w < monthStart leap 5 then 4 else if w < monthStart leap 6 then 5
      else if w < monthStart leap 7 then 6 else if w < monthStart leap 8 then 7
      else if w < monthStart leap 9 then 8 else if w < monthStart leap 10 then 9
      else if w < monthStart leap 11 then 10 else 11)"

definition DateFromDay :: "int \<Rightarrow> int" where
  "DateFromDay d =
     DayWithinYear d - monthStart (InLeapYear (YearFromDay d)) (MonthFromDay d) + 1"

definition MakeDay :: "int \<Rightarrow> int \<Rightarrow> int \<Rightarrow> int" where
  "MakeDay year month dt =
     (let ym = year + month div 12; mn = month mod 12 in
      DayFromYear ym + monthStart (InLeapYear ym) mn + dt - 1)"

definition MakeTime :: "int \<Rightarrow> int \<Rightarrow> int \<Rightarrow> int \<Rightarrow> int" where
  "MakeTime h m s ms = h * msPerHour + m * msPerMinute + s * 1000 + ms"

definition MakeDate :: "int \<Rightarrow> int \<Rightarrow> int" where
  "MakeDate day time = day * msPerDay + time"

subsection \<open>The methods of \<open>Date\<close> that the code calls\<close>

definition getFullYear :: "int \<Rightarrow> jsdate \<Rightarrow> int" where
  "getFullYear tz t = YearFromDay (Day (LocalTime tz t))"

definition getMonth :: "int \<Rightarrow> jsdate \<Rightarrow> int" where
  "getMonth tz t = MonthFromDay (Day (LocalTime tz t))"

definition getDate :: "int \<Rightarrow> jsdate \<Rightarrow> int" where
  "getDate tz t = DateFromDay (Day (LocalTime tz t))"

definition setDate :: "int \<Rightarrow> jsdate \<Rightarrow> int \<Rightarrow> jsdate" where
  "setDate tz t dt =
     (let l = LocalTime tz t in
      UTC tz (MakeDate (MakeDay (YearFromDay (Day l)) (MonthFromDay (Day l)) dt)
                       (TimeWithinDay l)))"

text \<open>\<open>date.setHours(h, m, 0, 0)\<close>.\<close>

definition setHours :: "int \<Rightarrow> jsdate \<Rightarrow> int \<Rightarrow> int \<Rightarrow> jsdate" where
  "setHours tz t h m = UTC tz (MakeDate (Day (LocalTime tz t)) (MakeTime h m 0 0))"

definition getHours :: "int \<Rightarrow> jsdate \<Rightarrow> int" where
  "getHours tz t = TimeWithinDay (LocalTime tz t) div msPerHour"

definition getMinutes :: "int \<Rightarrow> jsdate \<Rightarrow> int" where
  "getMinutes tz t = (TimeWithinDay (LocalTime tz t) div msPerMinute) mod 60"

text \<open>
  \<open>new Date(year, monthIndex, day)\<close>: local midnight of that day; a year from 0 to 99
  means 1900 + year.
\<close>

definition newDateYMD :: "int \<Rightarrow> int \<Rightarrow> int \<Rightarrow> int \<Rightarrow> jsdate" where
  "newDateYMD tz year monthIndex day =
     (let yr = (if 0 \<le> year \<and> year \<le> 99 then 1900 + year else year) in
      UTC tz (MakeDate (MakeDay yr monthIndex day) 0))"

subsection \<open>Numbers and strings\<close>

fun digits10 :: "nat \<Rightarrow> string" where
  "digits10 n =
     (if n < 10 then [''0123456789'' ! n]
      else digits10 (n div 10) @ [''0123456789'' ! (n mod 10)])"

declare digits10.simps [simp del]

text \<open>\<open>String(n)\<close> and \<open>`${n}`\<close> for an integer \<open>n\<close>.\<close>

definition numberToString :: "int \<Rightarrow> string" where
  "numberToString i = (if i < 0 then CHR ''-'' # digits10 (nat (- i)) else digits10 (nat i))"

text \<open>\<open>s.padStart(2, '0')\<close>.\<close>

definition padStart2 :: "string \<Rightarrow> string" where
  "padStart2 s = replicate (2 - length s) CHR ''0'' @ s"

definition digitVal :: "char \<Rightarrow> int option" where
  "digitVal c =
     (let n = (of_char c :: nat) in if 48 \<le> n \<and> n \<le> 57 then Some (int n - 48) else None)"

definition daysInMonth :: "int \<Rightarrow> int \<Rightarrow> int" where
  "daysInMonth y m =
     (if m = 2 then (if InLeapYear y then 29 else 28)
      else if m = 4 \<or> m = 6 \<or> m = 9 \<or> m = 11 then 30 else 31)"

text \<open>
  \<open>new Date(s)\<close> for a date-only string \<open>YYYY-MM-DD\<close>, the only form the calendar
  produces for a selected day: ECMAScript reads a date-only form as midnight UTC of that
  day, not as local midnight.  Anything else is \<open>Invalid Date\<close> here.
\<close>

fun newDateFromString :: "string \<Rightarrow> jsdate option" where
  "newDateFromString [y1, y2, y3, y4, h1, m1, m2, h2, d1, d2] =
     (case (digitVal y1, digitVal y2, digitVal y3, digitVal y4,
            digitVal m1, digitVal m2, digitVal d1, digitVal d2) of
        (Some a, Some b, Some c, Some d, Some e, Some f, Some g, Some h) \<Rightarrow>
          (let y = 1000 * a + 100 * b + 10 * c + d; m = 10 * e + f; dd = 10 * g + h in
           if h1 = CHR ''-'' \<and> h2 = CHR ''-'' \<and> 1 \<le> m \<and> m \<le> 12
              \<and> 1 \<le> dd \<and> dd \<le> daysInMonth y m
           then Some (MakeDate (MakeDay y (m - 1) dd) 0) else None)
      | _ \<Rightarrow> None)"
| "newDateFromString _ = None"

section \<open>lib/date\<close>

text \<open>
  An ISO string written by \<open>toISOString\<close> and read back by \<open>new Date\<close> denotes the
  same time value, so the \<open>startISO\<close> and \<open>endISO\<close> strings are modelled by the time
  value they denote.
\<close>

definition toUTCISO :: "jsdate \<Rightarrow> int" where
  "toUTCISO d = d"

definition toLocal :: "int \<Rightarrow> jsdate" where
  "toLocal utcISO = utcISO"

definition dateKey :: "int \<Rightarrow> jsdate \<Rightarrow> string" where
  "dateKey tz d =
     (let year = getFullYear tz d;
          month = padStart2 (numberToString (getMonth tz d + 1));
          day = padStart2 (numberToString (getDate tz d))
      in numberToString year @ ''-'' @ month @ ''-'' @ day)"

definition getMonthRange :: "int \<Rightarrow> int \<Rightarrow> int \<Rightarrow> int \<Rightarrow> int \<times> int" where
  "getMonthRange tz year month weeksPadding =
     (let startOfMonth = newDateYMD tz year (month - 1) 1;
          endOfMonth = newDateYMD tz year month 0;
          paddingDays = weeksPadding * 7;
          start = setDate tz startOfMonth (getDate tz startOfMonth - paddingDays);
          end' = setDate tz endOfMonth (getDate tz endOfMonth + paddingDays)
      in (toUTCISO start, toUTCISO end'))"

definition dateRangesOverlap :: "jsdate \<Rightarrow> jsdate \<Rightarrow> jsdate \<Rightarrow> jsdate \<Rightarrow> bool" where
  "dateRangesOverlap start1 end1 start2 end2 = (start1 < end2 \<and> start2 < end1)"

definition isPast :: "jsdate \<Rightarrow> jsdate \<Rightarrow> bool" where
  "isPast now d = (d < now)"

text \<open>The loop \<open>for (let i = 1; i <= weeks; i++)\<close> of \<open>getWeeklyRepeatDates\<close>.\<close>

function weeklyLoop :: "int \<Rightarrow> jsdate \<Rightarrow> int \<Rightarrow> int \<Rightarrow> jsdate list \<Rightarrow> jsdate list" where
  "weeklyLoop tz startDate weeks i dates =
     (if i \<le> weeks
      then weeklyLoop tz startDate weeks (i + 1)
             (dates @ [setDate tz startDate (getDate tz startDate + i * 7)])
      else dates)"
  by pat_completeness auto
termination
  by (relation "measure (\<lambda>(tz, startDate, weeks, i, dates). nat (weeks + 1 - i))") auto

declare weeklyLoop.simps [simp del]

definition getWeeklyRepeatDates :: "int \<Rightarrow> jsdate \<Rightarrow> int \<Rightarrow> jsdate list" where
  "getWeeklyRepeatDates tz startDate weeks = weeklyLoop tz startDate weeks 1 []"


section \<open>The session store of the calendar screen\<close>

datatype status = Booked | Completed | Cancelled | NoShow

text \<open>A session without its id (\<open>Omit<Session, 'id'>\<close>), and a stored session.\<close>

record session_data =
  clientId :: string
  clientName :: "string option"
  date :: string
  startISO :: int
  endISO :: int
  status :: status
  location :: "string option"
  notes' :: "string option"
  recurring :: "bool option"

record session = session_data +
  sessionId :: string

record session_filters =
  filter_status :: "status list option"
  filter_clientId :: "string option"

text \<open>
  What \<open>AsyncStorage.getItem\<close> followed by \<open>JSON.parse\<close> gives: an exception, no item
  (\<open>null\<close>), or the stored list.  In \<open>loadSessions\<close> the \<open>new Date(iso)\<close> of an
  ISO string is written \<open>toLocal iso\<close>, which is that call.
\<close>

datatype stored = ReadThrows | NoItem | Item "session list"

definition loadSessions ::
  "stored \<Rightarrow> int \<Rightarrow> int \<Rightarrow> session_filters option \<Rightarrow> session list" where
  "loadSessions st startISO' endISO' fs =
     (case st of
        ReadThrows \<Rightarrow> []
      | _ \<Rightarrow>
        (let allSessions = (case st of Item ss \<Rightarrow> ss | _ \<Rightarrow> []);
             startDate = toLocal startISO';
             endDate = toLocal endISO';
             filtered = filter (\<lambda>s. startDate \<le> toLocal (startISO s)
                                      \<and> toLocal (startISO s) \<le> endDate) allSessions
         in case (case fs of None \<Rightarrow> None | Some f \<Rightarrow> filter_status f) of
              Some (x # xs) \<Rightarrow> filter (\<lambda>s. status s \<in> set (x # xs)) filtered
            | _ \<Rightarrow>
              (case (case fs of None \<Rightarrow> None | Some f \<Rightarrow> filter_clientId f) of
                 Some (c # cs) \<Rightarrow> filter (\<lambda>s. clientId s = c # cs) filtered
               | _ \<Rightarrow> filtered)))"

section \<open>components/Calendar\<close>

record client =
  client_id :: string
  displayName :: "string option"
  firstName :: "string option"
  lastName :: "string option"

record create_form =
  form_clientId :: string
  form_date :: string
  startTime :: "int \<times> int"
  endTime :: "int \<times> int"
  form_status :: status
  form_location :: string
  form_notes :: string
  repeatWeekly :: bool
  repeatWeeks :: int

text \<open>
  The form's \<open>startTime\<close> and \<open>endTime\<close> strings are modelled by the two integers
  that \<open>split(':').map(Number)\<close> reads from them.
\<close>

datatype create_arg = Single session_data | Batch "session_data list"

text \<open>
  What the component does to the outside, in the order in which it does it: the calls of
  the \<open>loadSessions\<close>, \<open>onCreateSession\<close> and \<open>onSessionPress\<close> props, the alerts
  and the console messages.  \<open>CheckedConflicts\<close> records a call of \<open>checkConflicts\<close>
  and what it returned.
\<close>

datatype event =
    LoadSessions int int session_filters
  | ConsoleError string
  | Alert string string
  | CheckedConflicts "session list"
  | OnSessionPress session
  | OnCreateSession create_arg

text \<open>
  The props and the surroundings of the component.  \<open>loadSessions_prop\<close> gives the
  outcome of the promise that the \<open>loadSessions\<close> prop returns (\<open>Inl\<close>: rejected);
  \<open>onCreateSession_prop\<close> is absent or tells whether its promise resolves.
\<close>

record host =
  tz :: int
  now :: jsdate
  readOnly :: bool
  filters :: session_filters
  clients :: "client list"
  loadSessions_prop :: "int \<Rightarrow> int \<Rightarrow> session_filters \<Rightarrow> string + session list"
  onCreateSession_prop :: "(create_arg \<Rightarrow> bool) option"
  hasOnSessionPress :: bool

record calendar_state =
  visibleMonth :: "int \<times> int"
  sessionsByDate :: "string \<rightharpoonup> session list"
  cachedMonths :: "string set"
  isLoading :: bool
  error :: "string option"
  showCreateModal :: bool

type_synonym run = "calendar_state \<times> event list"

text \<open>The buttons of the two alerts that ask the user.\<close>

datatype past_choice = PastCancel | PastContinue

datatype conflict_choice = ViewConflict | PickDifferentTime | Override

definition monthKey :: "int \<Rightarrow> int \<Rightarrow> string" where
  "monthKey year month = numberToString year @ ''-'' @ numberToString month"

text \<open>The \<open>reduce\<close> that groups the loaded sessions by their \<open>date\<close>.\<close>

definition groupStep :: "(string \<rightharpoonup> session list) \<Rightarrow> session \<Rightarrow> (string \<rightharpoonup> session list)" where
  "groupStep acc s =
     acc(date s \<mapsto> (case acc (date s) of None \<Rightarrow> [] | Some b \<Rightarrow> b) @ [s])"

definition grouped :: "session list \<Rightarrow> (string \<rightharpoonup> session list)" where
  "grouped sessions = foldl groupStep Map.empty sessions"

text \<open>\<open>{ ...prev, ...grouped }\<close>.\<close>

definition mergeGrouped ::
  "(string \<rightharpoonup> session list) \<Rightarrow> (string \<rightharpoonup> session list) \<Rightarrow> (string \<rightharpoonup> session list)" where
  "mergeGrouped prev g = prev ++ g"

text \<open>
  The call \<open>loadSessions({ startISO: range.startISO, endISO: range.endISO, filters })\<close>
  of \<open>fetchMonth\<close>, and what the host answers to it.
\<close>

definition loadCall :: "host \<Rightarrow> int \<Rightarrow> int \<Rightarrow> bool \<Rightarrow> event" where
  "loadCall h year month withPadding =
     (let range = getMonthRange (tz h) year month (if withPadding then 2 else 0)
      in LoadSessions (fst range) (snd range) (filters h))"

definition loadResult :: "host \<Rightarrow> int \<Rightarrow> int \<Rightarrow> bool \<Rightarrow> string + session list" where
  "loadResult h year month withPadding =
     (let range = getMonthRange (tz h) year month (if withPadding then 2 else 0)
      in loadSessions_prop h (fst range) (snd range) (filters h))"

definition fetchMonth :: "host \<Rightarrow> int \<Rightarrow> int \<Rightarrow> bool \<Rightarrow> run \<Rightarrow> run" where
  "fetchMonth h year month withPadding r =
     (let s = fst r; tr = snd r; key = monthKey year month in
      if key \<in> cachedMonths s then (s, tr)
      else
        (case loadResult h year month withPadding of
           Inr sessions \<Rightarrow>
             (s\<lparr>sessionsByDate := mergeGrouped (sessionsByDate s) (grouped sessions),
                cachedMonths := insert key (cachedMonths s)\<rparr>,
              tr @ [loadCall h year month withPadding])
         | Inl err \<Rightarrow>
             (s\<lparr>error := Some ''Failed to load sessions''\<rparr>,
              tr @ [loadCall h year month withPadding,
                    ConsoleError ''Failed to fetch sessions:''])))"

text \<open>
  The effect that runs on mount and whenever \<open>visibleMonth\<close> changes.  The three
  fetches are started together; here they run one after the other, in the order in
  which they are started.  \<open>handleMonthChange\<close> sets the visible month, which runs the
  effect; its \<open>onMonthChange\<close> callback is not recorded.
\<close>

definition monthEffect :: "host \<Rightarrow> run \<Rightarrow> run" where
  "monthEffect h r =
     (let year = fst (visibleMonth (fst r)); month = snd (visibleMonth (fst r));
          r0 = ((fst r)\<lparr>isLoading := True\<rparr>, snd r);
          r1 = fetchMonth h year month True r0;
          r2 = fetchMonth h year (month - 1) False r1;
          r3 = fetchMonth h year (month + 1) False r2
      in ((fst r3)\<lparr>isLoading := False\<rparr>, snd r3))"

definition handleMonthChange :: "host \<Rightarrow> int \<Rightarrow> int \<Rightarrow> run \<Rightarrow> run" where
  "handleMonthChange h year month r =
     monthEffect h ((fst r)\<lparr>visibleMonth := (year, month)\<rparr>, snd r)"

definition checkConflicts ::
  "int \<Rightarrow> calendar_state \<Rightarrow> jsdate \<Rightarrow> jsdate \<Rightarrow> string option \<Rightarrow> session list" where
  "checkConflicts z s startDate endDate excludeId =
     (let dateStr = dateKey z startDate;
          sessions = (case sessionsByDate s dateStr of None \<Rightarrow> [] | Some b \<Rightarrow> b)
      in filter (\<lambda>session.
                   if Some (sessionId session) = excludeId then False
                   else dateRangesOverlap startDate endDate
                          (toLocal (startISO session)) (toLocal (endISO session)))
           sessions)"

subsection \<open>Creating sessions\<close>

definition isWhiteSpace :: "char \<Rightarrow> bool" where
  "isWhiteSpace c = (c \<in> set [CHR '' '', CHR 0x09, CHR 0x0A, CHR 0x0B, CHR 0x0C, CHR 0x0D])"

definition trim :: "string \<Rightarrow> string" where
  "trim s = rev (dropWhile isWhiteSpace (rev (dropWhile isWhiteSpace s)))"

text \<open>\<open>x || ''\<close> for a string that may be null or undefined.\<close>

definition orEmpty :: "string option \<Rightarrow> string" where
  "orEmpty x = (case x of None \<Rightarrow> [] | Some v \<Rightarrow> v)"

text \<open>
  \<open>client?.displayName || `${client?.firstName || ''} ${client?.lastName || ''}`.trim()\<close>
\<close>

definition clientLabel :: "client option \<Rightarrow> string" where
  "clientLabel c =
     (case (case c of None \<Rightarrow> None | Some k \<Rightarrow> displayName k) of
        Some (x # xs) \<Rightarrow> x # xs
      | _ \<Rightarrow> trim (orEmpty (case c of None \<Rightarrow> None | Some k \<Rightarrow> firstName k) @ '' ''
                  @ orEmpty (case c of None \<Rightarrow> None | Some k \<Rightarrow> lastName k)))"

text \<open>\<open>s || undefined\<close>.\<close>

definition orUndefined :: "string \<Rightarrow> string option" where
  "orUndefined s = (if s = [] then None else Some s)"

text \<open>
  \<open>startDate\<close> and \<open>endDate\<close> of \<open>handleCreateSession\<close>: the form's date, read by
  \<open>new Date\<close>, with the local hours and minutes set.  \<open>None\<close>: both are
  \<open>Invalid Date\<close>.
\<close>

definition formDates :: "int \<Rightarrow> create_form \<Rightarrow> (jsdate \<times> jsdate) option" where
  "formDates z form =
     (case newDateFromString (form_date form) of
        None \<Rightarrow> None
      | Some d \<Rightarrow>
          Some (setHours z d (fst (startTime form)) (snd (startTime form)),
                setHours z d (fst (endTime form)) (snd (endTime form))))"

definition baseSession :: "host \<Rightarrow> create_form \<Rightarrow> jsdate \<Rightarrow> jsdate \<Rightarrow> session_data" where
  "baseSession h form startDate endDate =
     \<lparr>clientId = form_clientId form,
      clientName = Some (clientLabel (find (\<lambda>c. client_id c = form_clientId form) (clients h))),
      date = form_date form,
      startISO = toUTCISO startDate,
      endISO = toUTCISO endDate,
      status = form_status form,
      location = orUndefined (form_location form),
      notes' = orUndefined (form_notes form),
      recurring = None\<rparr>"

text \<open>
  The function mapped over \<open>repeatDates\<close>.  The date key is read first; each
  \<open>setHours\<close> then changes the date object, so the second one starts from the result of
  the first.
\<close>

definition repeatSession :: "int \<Rightarrow> create_form \<Rightarrow> session_data \<Rightarrow> jsdate \<Rightarrow> session_data" where
  "repeatSession z form base d =
     (let key = dateKey z d;
          d1 = setHours z d (fst (startTime form)) (snd (startTime form));
          d2 = setHours z d1 (fst (endTime form)) (snd (endTime form))
      in base\<lparr>date := key, startISO := toUTCISO d1, endISO := toUTCISO d2,
              recurring := Some True\<rparr>)"

text \<open>What \<open>createSessions\<close> hands to \<open>onCreateSession\<close>.\<close>

definition createArg :: "host \<Rightarrow> create_form \<Rightarrow> jsdate \<Rightarrow> jsdate \<Rightarrow> create_arg" where
  "createArg h form startDate endDate =
     (let base = baseSession h form startDate endDate in
      if repeatWeekly form \<and> repeatWeeks form > 0
      then Batch (map (repeatSession (tz h) form base)
                    (getWeeklyRepeatDates (tz h) startDate (repeatWeeks form)))
      else Single base)"

text \<open>
  After a create that succeeded: the marker of the visible month is deleted, the month is
  fetched again and the modal is closed.  The form is an argument of the functions here,
  so \<open>resetCreateForm\<close> has nothing to reset.
\<close>

definition refreshAfterCreate :: "host \<Rightarrow> run \<Rightarrow> run" where
  "refreshAfterCreate h r =
     (let s = fst r; year = fst (visibleMonth s); month = snd (visibleMonth s);
          r1 = fetchMonth h year month True
                 (s\<lparr>cachedMonths := cachedMonths s - {monthKey year month}\<rparr>, snd r)
      in ((fst r1)\<lparr>showCreateModal := False\<rparr>, snd r1))"

definition createSessions :: "host \<Rightarrow> create_form \<Rightarrow> jsdate \<Rightarrow> jsdate \<Rightarrow> run \<Rightarrow> run" where
  "createSessions h form startDate endDate r =
     (let arg = createArg h form startDate endDate in
      case onCreateSession_prop h of
        None \<Rightarrow> refreshAfterCreate h r
      | Some create \<Rightarrow>
          if create arg then refreshAfterCreate h (fst r, snd r @ [OnCreateSession arg])
          else (fst r, snd r @ [OnCreateSession arg, Alert ''Error'' ''Failed to create session'']))"

definition conflictMessage :: "session list \<Rightarrow> string" where
  "conflictMessage conflicts =
     ''This time conflicts with '' @ numberToString (int (length conflicts))
       @ '' existing session(s)''"

definition proceedWithCreate ::
  "host \<Rightarrow> create_form \<Rightarrow> jsdate \<Rightarrow> jsdate \<Rightarrow> conflict_choice \<Rightarrow> run \<Rightarrow> run" where
  "proceedWithCreate h form startDate endDate cc r =
     (let conflicts = checkConflicts (tz h) (fst r) startDate endDate None in
      case conflicts of
        [] \<Rightarrow> createSessions h form startDate endDate (fst r, snd r @ [CheckedConflicts []])
      | c # cs \<Rightarrow>
          (let r1 = (fst r, snd r @ [CheckedConflicts conflicts,
                                     Alert ''Schedule Conflict'' (conflictMessage conflicts)])
           in case cc of
                ViewConflict \<Rightarrow>
                  (if hasOnSessionPress h then (fst r1, snd r1 @ [OnSessionPress c]) else r1)
              | PickDifferentTime \<Rightarrow> r1
              | Override \<Rightarrow> createSessions h form startDate endDate r1))"

text \<open>
  \<open>handleCreateSession\<close>, with the answers the user gives if the alerts ask.  With an
  \<open>Invalid Date\<close> every comparison is false, so the checks pass, no session overlaps,
  and \<open>toISOString\<close> throws inside the \<open>try\<close> of \<open>createSessions\<close>.
\<close>

definition handleCreateSession ::
  "host \<Rightarrow> create_form \<Rightarrow> past_choice \<Rightarrow> conflict_choice \<Rightarrow> run \<Rightarrow> run" where
  "handleCreateSession h form pc cc r =
     (case onCreateSession_prop h of
        None \<Rightarrow> r
      | Some create \<Rightarrow>
          if form_clientId form = []
          then (fst r, snd r @ [Alert ''Error'' ''Please select a client or add clients first''])
          else
            (case formDates (tz h) form of
               None \<Rightarrow>
                 (fst r, snd r @ [CheckedConflicts [],
                                  Alert ''Error'' ''Failed to create session''])
             | Some (startDate, endDate) \<Rightarrow>
                 if startDate \<ge> endDate
                 then (fst r, snd r @ [Alert ''Error'' ''End time must be after start time''])
                 else if isPast (now h) startDate \<and> \<not> readOnly h
                 then
                   (let r1 = (fst r, snd r @ [Alert ''Warning''
                                                ''This session is in the past. Continue?''])
                    in case pc of
                         PastCancel \<Rightarrow> r1
                       | PastContinue \<Rightarrow> proceedWithCreate h form startDate endDate cc r1)
                 else proceedWithCreate h form startDate endDate cc r))"

section \<open>Scenarios\<close>

text \<open>The state the component starts in, for a given visible month.\<close>

definition initialState :: "int \<times> int \<Rightarrow> calendar_state" where
  "initialState vm =
     \<lparr>visibleMonth = vm, sessionsByDate = Map.empty, cachedMonths = {}, isLoading = False,
      error = None, showCreateModal = False\<rparr>"

text \<open>
  A host at UTC offset \<open>z\<close>, with no filters and no clients, whose \<open>loadSessions\<close>
  always answers \<open>res\<close> and whose \<open>onCreateSession\<close> always resolves.
\<close>

definition exampleHost :: "int \<Rightarrow> string + session list \<Rightarrow> host" where
  "exampleHost z res =
     \<lparr>tz = z, now = 0, readOnly = False,
      filters = \<lparr>filter_status = None, filter_clientId = None\<rparr>, clients = [],
      loadSessions_prop = (\<lambda>a b f. res), onCreateSession_prop = Some (\<lambda>arg. True),
      hasOnSessionPress = True\<rparr>"

text \<open>A booked session with the given id, client, date key, start and end.\<close>

definition mkSession :: "string \<Rightarrow> string \<Rightarrow> string \<Rightarrow> int \<Rightarrow> int \<Rightarrow> session" where
  "mkSession i c k s e =
     \<lparr>clientId = c, clientName = None, date = k, startISO = s, endISO = e, status = Booked,
      location = None, notes' = None, recurring = None, sessionId = i\<rparr>"

section \<open>Facts about dates\<close>

lemma MakeDay_of_fields:
  "MakeDay (YearFromDay d) (MonthFromDay d) (DateFromDay d + k) = d + k"
proof -
  have "0 \<le> MonthFromDay d \<and> MonthFromDay d < 12"
    unfolding MonthFromDay_def Let_def by simp
  then have "MonthFromDay d div 12 = 0" "MonthFromDay d mod 12 = MonthFromDay d"
    by simp_all
  then show ?thesis
    unfolding MakeDay_def DateFromDay_def DayWithinYear_def Let_def by simp
qed

text \<open>\<open>d.setDate(d.getDate() + k)\<close> moves a date by \<open>k\<close> days.\<close>

lemma setDate_getDate: "setDate z t (getDate z t + k) = t + k * msPerDay"
proof -
  have "(t + z) div msPerDay * msPerDay + (t + z) mod msPerDay = t + z"
    by simp
  then show ?thesis
    unfolding setDate_def getDate_def Let_def MakeDay_of_fields MakeDate_def UTC_def
      LocalTime_def Day_def TimeWithinDay_def
    by (simp add: algebra_simps)
qed

lemma weeklyLoop_eq:
  "weeklyLoop z s w i acc = acc @ map (\<lambda>j. s + j * 7 * msPerDay) [i..w]"
proof (induction z s w i acc rule: weeklyLoop.induct)
  case (1 z s w i acc)
  show ?case
  proof (cases "i \<le> w")
    case True
    then have "[i..w] = i # [i + 1..w]"
      by (simp add: upto_rec1)
    with True 1 show ?thesis
      by (subst weeklyLoop.simps) (simp add: setDate_getDate)
  next
    case False
    then show ?thesis
      by (subst weeklyLoop.simps) simp
  qed
qed

lemma getWeeklyRepeatDates_eq:
  "getWeeklyRepeatDates z s w = map (\<lambda>j. s + j * 7 * msPerDay) [1..w]"
  unfolding getWeeklyRepeatDates_def by (simp add: weeklyLoop_eq)

section \<open>Overlap of time ranges\<close>

text \<open>
  C5.  \<open>dateRangesOverlap\<close> (the spec's \<open>rangesOverlap\<close>) is true exactly when
  \<open>startA < endB\<close> and \<open>startB < endA\<close>; it is symmetric in its two intervals; and two
  intervals that only touch at an end point (\<open>endA = startB\<close> or \<open>endB = startA\<close>) do not
  overlap.
\<close>

theorem dateRangesOverlap_iff_symmetric_touching:
  "dateRangesOverlap startA endA startB endB = (startA < endB \<and> startB < endA)
   \<and> dateRangesOverlap startA endA startB endB = dateRangesOverlap startB endB startA endA
   \<and> \<not> dateRangesOverlap startA e e endB
   \<and> \<not> dateRangesOverlap e endA startB e"
  unfolding dateRangesOverlap_def by auto

section \<open>Loading sessions from the store\<close>

text \<open>
  \<open>loadSessions\<close> never fails: when reading the store throws, it returns no sessions.
\<close>

lemma loadSessions_read_throws: "loadSessions ReadThrows a b fs = []"
  by (simp add: loadSessions_def)

text \<open>
  With a non-empty status filter \<open>loadSessions\<close> returns from the status branch, and the
  client filter is never looked at.
\<close>

lemma loadSessions_status_branch:
  "loadSessions (Item ss) a b (Some \<lparr>filter_status = Some (x # xs), filter_clientId = c\<rparr>)
   = filter (\<lambda>s. status s \<in> set (x # xs))
       (filter (\<lambda>s. a \<le> startISO s \<and> startISO s \<le> b) ss)"
  by (simp add: loadSessions_def toLocal_def)

text \<open>
  C1 says that a status filter and a client filter given together combine with AND.  Here
  the store holds one booked session of client \<open>c2\<close> that starts inside the requested
  range, and the filters ask for status \<open>booked\<close> and client \<open>c1\<close>: the session is
  returned, although its client is not \<open>c1\<close>.
\<close>

theorem loadSessions_status_filter_drops_clientId:
  "loadSessions
     (Item [\<lparr>clientId = ''c2'', clientName = None, date = ''2024-03-04'',
             startISO = 1709542800000, endISO = 1709546400000, status = Booked,
             location = None, notes' = None, recurring = None, sessionId = ''s1''\<rparr>])
     1709510400000 1709596800000
     (Some \<lparr>filter_status = Some [Booked], filter_clientId = Some ''c1''\<rparr>)
   = [\<lparr>clientId = ''c2'', clientName = None, date = ''2024-03-04'',
        startISO = 1709542800000, endISO = 1709546400000, status = Booked,
        location = None, notes' = None, recurring = None, sessionId = ''s1''\<rparr>]"
  by (simp add: loadSessions_def toLocal_def)

section \<open>The month cache\<close>

lemma groupStep_at:
  "groupStep acc s k =
     (if date s = k then Some ((case acc k of None \<Rightarrow> [] | Some b \<Rightarrow> b) @ [s]) else acc k)"
  unfolding groupStep_def by auto

lemma foldl_groupStep:
  "foldl groupStep acc ss k =
     (if filter (\<lambda>s. date s = k) ss = [] then acc k
      else Some ((case acc k of None \<Rightarrow> [] | Some b \<Rightarrow> b) @ filter (\<lambda>s. date s = k) ss))"
proof (induction ss arbitrary: acc)
  case Nil
  show ?case by simp
next
  case (Cons s ss)
  have "foldl groupStep acc (s # ss) k = foldl groupStep (groupStep acc s) ss k"
    by simp
  also have "\<dots> =
     (if filter (\<lambda>s. date s = k) ss = [] then groupStep acc s k
      else Some ((case groupStep acc s k of None \<Rightarrow> [] | Some b \<Rightarrow> b)
                 @ filter (\<lambda>s. date s = k) ss))"
    by (rule Cons.IH)
  also have "\<dots> =
     (if filter (\<lambda>s. date s = k) (s # ss) = [] then acc k
      else Some ((case acc k of None \<Rightarrow> [] | Some b \<Rightarrow> b)
                 @ filter (\<lambda>s. date s = k) (s # ss)))"
    by (simp add: groupStep_at)
  finally show ?case .
qed

lemma grouped_bucket:
  "grouped ss k =
     (if filter (\<lambda>s. date s = k) ss = [] then None else Some (filter (\<lambda>s. date s = k) ss))"
  unfolding grouped_def by (simp add: foldl_groupStep)

lemma mergeGrouped_bucket:
  "mergeGrouped prev (grouped fetched) k =
     (if filter (\<lambda>s. date s = k) fetched = [] then prev k
      else Some (filter (\<lambda>s. date s = k) fetched))"
  unfolding mergeGrouped_def by (simp add: grouped_bucket map_add_def)

lemma mergeGrouped_twice:
  "mergeGrouped (mergeGrouped prev g) g = mergeGrouped prev g"
  unfolding mergeGrouped_def by (rule ext) (simp add: map_add_def split: option.split)

text \<open>
  C3 as stated fails: the merge of \<open>fetchMonth\<close> is \<open>{ ...prev, ...grouped }\<close>, which
  puts the fetched bucket in the place of the old one.  Here the bucket of 2024-03-04 holds
  session \<open>a\<close>, the fetch brings session \<open>b\<close> of the same day, and after the merge
  the bucket is \<open>[b]\<close>: session \<open>a\<close>, which was present, has been removed.
\<close>

theorem mergeGrouped_drops_present_session:
  "[''2024-03-04'' \<mapsto> [mkSession ''a'' ''c1'' ''2024-03-04'' 1709542800000 1709546400000]]
     ''2024-03-04''
     = Some [mkSession ''a'' ''c1'' ''2024-03-04'' 1709542800000 1709546400000]
   \<and> mergeGrouped
       [''2024-03-04'' \<mapsto> [mkSession ''a'' ''c1'' ''2024-03-04'' 1709542800000 1709546400000]]
       (grouped [mkSession ''b'' ''c1'' ''2024-03-04'' 1709550000000 1709553600000])
       ''2024-03-04''
     = Some [mkSession ''b'' ''c1'' ''2024-03-04'' 1709550000000 1709553600000]
   \<and> mkSession ''a'' ''c1'' ''2024-03-04'' 1709542800000 1709546400000
       \<notin> set [mkSession ''b'' ''c1'' ''2024-03-04'' 1709550000000 1709553600000]"
  by (simp add: mergeGrouped_bucket mkSession_def)

text \<open>
  C3, amended.  The merge replaces whole buckets: for a date key that occurs among the
  fetched sessions, the bucket after the merge is exactly the fetched sessions of that
  date, in the order of the fetch (so a session whose id was in the bucket already is not
  there twice, and a session of the old bucket that the fetch does not bring is gone); the
  bucket of any other date key is unchanged; and merging the same fetched group twice
  gives the same cache as merging it once.
\<close>

theorem mergeGrouped_replaces_buckets:
  "mergeGrouped prev (grouped fetched) k =
     (if filter (\<lambda>s. date s = k) fetched = [] then prev k
      else Some (filter (\<lambda>s. date s = k) fetched))
   \<and> mergeGrouped (mergeGrouped prev (grouped fetched)) (grouped fetched)
       = mergeGrouped prev (grouped fetched)"
  by (simp add: mergeGrouped_bucket mergeGrouped_twice)

lemma fetchMonth_cached:
  "monthKey year month \<in> cachedMonths (fst r) \<Longrightarrow> fetchMonth h year month p r = r"
  unfolding fetchMonth_def by (simp add: Let_def)

lemma fetchMonth_failure:
  "monthKey year month \<notin> cachedMonths (fst r) \<Longrightarrow> loadResult h year month p = Inl err
   \<Longrightarrow> fetchMonth h year month p r =
        ((fst r)\<lparr>error := Some ''Failed to load sessions''\<rparr>,
         snd r @ [loadCall h year month p, ConsoleError ''Failed to fetch sessions:''])"
  unfolding fetchMonth_def by (simp add: Let_def)

lemma fetchMonth_success:
  "monthKey year month \<notin> cachedMonths (fst r) \<Longrightarrow> loadResult h year month p = Inr ss
   \<Longrightarrow> fetchMonth h year month p r =
        ((fst r)\<lparr>sessionsByDate := mergeGrouped (sessionsByDate (fst r)) (grouped ss),
                 cachedMonths := insert (monthKey year month) (cachedMonths (fst r))\<rparr>,
         snd r @ [loadCall h year month p])"
  unfolding fetchMonth_def by (simp add: Let_def)

lemma fetchMonth_issues_load:
  "monthKey year month \<notin> cachedMonths (fst r)
   \<Longrightarrow> \<exists>rest. snd (fetchMonth h year month p r) = snd r @ loadCall h year month p # rest"
  by (cases "loadResult h year month p") (simp_all add: fetchMonth_failure fetchMonth_success)

lemma fetchMonth_trace_grows:
  "\<exists>rest. snd (fetchMonth h year month p r) = snd r @ rest"
  by (cases "monthKey year month \<in> cachedMonths (fst r)"; cases "loadResult h year month p")
     (simp_all add: fetchMonth_failure fetchMonth_success fetchMonth_cached)

lemma fetchMonth_cachedMonths:
  "cachedMonths (fst (fetchMonth h year month p r))
     \<subseteq> insert (monthKey year month) (cachedMonths (fst r))"
  by (cases "monthKey year month \<in> cachedMonths (fst r)"; cases "loadResult h year month p")
     (auto simp add: fetchMonth_failure fetchMonth_success fetchMonth_cached)

lemma fetchMonth_keeps_markers:
  "cachedMonths (fst r) \<subseteq> cachedMonths (fst (fetchMonth h year month p r))"
  by (cases "monthKey year month \<in> cachedMonths (fst r)"; cases "loadResult h year month p")
     (auto simp add: fetchMonth_failure fetchMonth_success fetchMonth_cached)

lemma fetchMonth_marks:
  "loadResult h year month p = Inr ss
   \<Longrightarrow> monthKey year month \<in> cachedMonths (fst (fetchMonth h year month p r))"
  by (cases "monthKey year month \<in> cachedMonths (fst r)")
     (simp_all add: fetchMonth_success fetchMonth_cached)

text \<open>
  C6.  When \<open>fetchMonth\<close> calls \<open>loadSessions\<close> (the month is not marked as
  fetched) and the call fails, the component's \<open>error\<close> is set, and the buckets and
  the set of fetched months are what they were before the fetch.
\<close>

theorem fetchMonth_failure_keeps_cache:
  assumes "monthKey year month \<notin> cachedMonths (fst r)"
    and "loadResult h year month p = Inl err"
  shows "error (fst (fetchMonth h year month p r)) = Some ''Failed to load sessions''
    \<and> sessionsByDate (fst (fetchMonth h year month p r)) = sessionsByDate (fst r)
    \<and> cachedMonths (fst (fetchMonth h year month p r)) = cachedMonths (fst r)"
  using assms by (simp add: fetchMonth_failure)

theorem fetchMonth_failure_keeps_cache_witness:
  "monthKey 2024 3
     \<notin> cachedMonths (fst ((initialState (2024, 3))
          \<lparr>sessionsByDate := [''2024-03-04'' \<mapsto>
             [mkSession ''a'' ''c1'' ''2024-03-04'' 1709542800000 1709546400000]]\<rparr>, []))
   \<and> loadResult (exampleHost 0 (Inl ''storage failed'')) 2024 3 True = Inl ''storage failed''
   \<and> error (fst (fetchMonth (exampleHost 0 (Inl ''storage failed'')) 2024 3 True
        ((initialState (2024, 3))
          \<lparr>sessionsByDate := [''2024-03-04'' \<mapsto>
             [mkSession ''a'' ''c1'' ''2024-03-04'' 1709542800000 1709546400000]]\<rparr>, [])))
       = Some ''Failed to load sessions''
   \<and> sessionsByDate (fst (fetchMonth (exampleHost 0 (Inl ''storage failed'')) 2024 3 True
        ((initialState (2024, 3))
          \<lparr>sessionsByDate := [''2024-03-04'' \<mapsto>
             [mkSession ''a'' ''c1'' ''2024-03-04'' 1709542800000 1709546400000]]\<rparr>, [])))
         ''2024-03-04''
       = Some [mkSession ''a'' ''c1'' ''2024-03-04'' 1709542800000 1709546400000]"
  using fetchMonth_failure_keeps_cache
    [of 2024 3 "((initialState (2024, 3))
          \<lparr>sessionsByDate := [''2024-03-04'' \<mapsto>
             [mkSession ''a'' ''c1'' ''2024-03-04'' 1709542800000 1709546400000]]\<rparr>, [])"
        "exampleHost 0 (Inl ''storage failed'')" True "''storage failed''"]
  by (simp add: initialState_def exampleHost_def loadResult_def Let_def)

text \<open>
  C9.  A month that is not yet marked is marked as fetched exactly when its load
  succeeded, together with the merge of what was loaded, and a later fetch of the month
  then returns at once.  When the load fails the month stays unmarked, and a later fetch
  of the same month calls \<open>loadSessions\<close> again.
\<close>

theorem fetchMonth_marks_after_success_only:
  assumes "monthKey year month \<notin> cachedMonths (fst r)"
  shows "(loadResult h year month p = Inr ss \<longrightarrow>
            sessionsByDate (fst (fetchMonth h year month p r))
              = mergeGrouped (sessionsByDate (fst r)) (grouped ss)
          \<and> cachedMonths (fst (fetchMonth h year month p r))
              = insert (monthKey year month) (cachedMonths (fst r))
          \<and> fetchMonth h' year month p' (fetchMonth h year month p r)
              = fetchMonth h year month p r)
    \<and> (loadResult h year month p = Inl err \<longrightarrow>
            monthKey year month \<notin> cachedMonths (fst (fetchMonth h year month p r))
          \<and> (\<exists>rest. snd (fetchMonth h' year month p' (fetchMonth h year month p r))
                = snd (fetchMonth h year month p r) @ loadCall h' year month p' # rest))"
proof (intro conjI impI)
  assume ok: "loadResult h year month p = Inr ss"
  from assms ok show "sessionsByDate (fst (fetchMonth h year month p r))
      = mergeGrouped (sessionsByDate (fst r)) (grouped ss)"
    by (simp add: fetchMonth_success)
  from assms ok show "cachedMonths (fst (fetchMonth h year month p r))
      = insert (monthKey year month) (cachedMonths (fst r))"
    by (simp add: fetchMonth_success)
  then show "fetchMonth h' year month p' (fetchMonth h year month p r)
      = fetchMonth h year month p r"
    by (simp add: fetchMonth_cached)
next
  assume bad: "loadResult h year month p = Inl err"
  from assms bad show n: "monthKey year month \<notin> cachedMonths (fst (fetchMonth h year month p r))"
    by (simp add: fetchMonth_failure)
  from fetchMonth_issues_load [OF n]
  show "\<exists>rest. snd (fetchMonth h' year month p' (fetchMonth h year month p r))
      = snd (fetchMonth h year month p r) @ loadCall h' year month p' # rest" .
qed

theorem fetchMonth_marks_after_success_only_witness:
  "monthKey 2024 3 \<notin> cachedMonths (fst (initialState (2024, 3), []))
   \<and> loadResult (exampleHost 0 (Inr [])) 2024 3 True = Inr []
   \<and> cachedMonths (fst (fetchMonth (exampleHost 0 (Inr [])) 2024 3 True
         (initialState (2024, 3), []))) = {monthKey 2024 3}
   \<and> fetchMonth (exampleHost 0 (Inl ''storage failed'')) 2024 3 True
        (fetchMonth (exampleHost 0 (Inr [])) 2024 3 True (initialState (2024, 3), []))
       = fetchMonth (exampleHost 0 (Inr [])) 2024 3 True (initialState (2024, 3), [])
   \<and> loadResult (exampleHost 0 (Inl ''storage failed'')) 2024 3 True = Inl ''storage failed''
   \<and> monthKey 2024 3
       \<notin> cachedMonths (fst (fetchMonth (exampleHost 0 (Inl ''storage failed'')) 2024 3 True
            (initialState (2024, 3), [])))
   \<and> (\<exists>rest. snd (fetchMonth (exampleHost 0 (Inr [])) 2024 3 True
          (fetchMonth (exampleHost 0 (Inl ''storage failed'')) 2024 3 True
             (initialState (2024, 3), [])))
        = snd (fetchMonth (exampleHost 0 (Inl ''storage failed'')) 2024 3 True
             (initialState (2024, 3), []))
          @ loadCall (exampleHost 0 (Inr [])) 2024 3 True # rest)"
  using
    fetchMonth_marks_after_success_only
      [of 2024 3 "(initialState (2024, 3), [])" "exampleHost 0 (Inr [])" True "[]"
          "exampleHost 0 (Inl ''storage failed'')" True "''storage failed''"]
    fetchMonth_marks_after_success_only
      [of 2024 3 "(initialState (2024, 3), [])" "exampleHost 0 (Inl ''storage failed'')" True
          "[]" "exampleHost 0 (Inr [])" True "''storage failed''"]
  by (simp add: initialState_def exampleHost_def loadResult_def Let_def)

section \<open>Prefetching the neighbouring months\<close>

lemma numberToString_small:
  "numberToString 0 = ''0''" "numberToString 1 = ''1''" "numberToString 2 = ''2''"
  "numberToString 12 = ''12''"
  by (simp_all add: numberToString_def digits10.simps)

lemma monthKey_0_ne_12: "monthKey Y 0 \<noteq> monthKey (Y - 1) 12"
proof
  assume "monthKey Y 0 = monthKey (Y - 1) 12"
  then have "last (monthKey Y 0) = last (monthKey (Y - 1) 12)"
    by simp
  then show False
    by (simp add: monthKey_def numberToString_small)
qed

lemma monthKey_1_ne_12: "monthKey Y 1 \<noteq> monthKey (Y - 1) 12"
proof
  assume "monthKey Y 1 = monthKey (Y - 1) 12"
  then have "last (monthKey Y 1) = last (monthKey (Y - 1) 12)"
    by simp
  then show False
    by (simp add: monthKey_def numberToString_small)
qed

lemma monthKey_2_ne_12: "monthKey Y 2 \<noteq> monthKey (Y - 1) 12"
proof
  assume "monthKey Y 2 = monthKey (Y - 1) 12"
  then have "last (butlast (monthKey Y 2)) = last (butlast (monthKey (Y - 1) 12))"
    by simp
  moreover have "butlast (monthKey Y 2) = numberToString Y @ ''-''"
    by (simp add: monthKey_def numberToString_small butlast_append)
  moreover have "butlast (monthKey (Y - 1) 12) = numberToString (Y - 1) @ ''-1''"
    by (simp add: monthKey_def numberToString_small butlast_append)
  ultimately show False
    by simp
qed

lemma monthEffect_markers:
  "cachedMonths (fst (monthEffect h r))
     \<subseteq> cachedMonths (fst r)
        \<union> {monthKey (fst (visibleMonth (fst r))) (snd (visibleMonth (fst r))),
            monthKey (fst (visibleMonth (fst r))) (snd (visibleMonth (fst r)) - 1),
            monthKey (fst (visibleMonth (fst r))) (snd (visibleMonth (fst r)) + 1)}"
proof -
  define y where "y = fst (visibleMonth (fst r))"
  define m where "m = snd (visibleMonth (fst r))"
  define r0 where "r0 = ((fst r)\<lparr>isLoading := True\<rparr>, snd r)"
  define r1 where "r1 = fetchMonth h y m True r0"
  define r2 where "r2 = fetchMonth h y (m - 1) False r1"
  define r3 where "r3 = fetchMonth h y (m + 1) False r2"
  have e: "monthEffect h r = ((fst r3)\<lparr>isLoading := False\<rparr>, snd r3)"
    unfolding monthEffect_def Let_def r3_def r2_def r1_def r0_def y_def m_def ..
  have "cachedMonths (fst r1) \<subseteq> insert (monthKey y m) (cachedMonths (fst r))"
    using fetchMonth_cachedMonths [of h y m True r0] by (simp add: r1_def r0_def)
  moreover have "cachedMonths (fst r2) \<subseteq> insert (monthKey y (m - 1)) (cachedMonths (fst r1))"
    unfolding r2_def by (rule fetchMonth_cachedMonths)
  moreover have "cachedMonths (fst r3) \<subseteq> insert (monthKey y (m + 1)) (cachedMonths (fst r2))"
    unfolding r3_def by (rule fetchMonth_cachedMonths)
  ultimately show ?thesis
    unfolding e y_def [symmetric] m_def [symmetric] by auto
qed

lemma monthEffect_issues_load:
  assumes "monthKey (fst (visibleMonth (fst r))) (snd (visibleMonth (fst r)))
             \<notin> cachedMonths (fst r)"
  shows "\<exists>rest. snd (monthEffect h r)
           = snd r @ loadCall h (fst (visibleMonth (fst r))) (snd (visibleMonth (fst r))) True
                     # rest"
proof -
  define y where "y = fst (visibleMonth (fst r))"
  define m where "m = snd (visibleMonth (fst r))"
  define r0 where "r0 = ((fst r)\<lparr>isLoading := True\<rparr>, snd r)"
  define r1 where "r1 = fetchMonth h y m True r0"
  define r2 where "r2 = fetchMonth h y (m - 1) False r1"
  define r3 where "r3 = fetchMonth h y (m + 1) False r2"
  have e: "monthEffect h r = ((fst r3)\<lparr>isLoading := False\<rparr>, snd r3)"
    unfolding monthEffect_def Let_def r3_def r2_def r1_def r0_def y_def m_def ..
  from assms have "monthKey y m \<notin> cachedMonths (fst r0)"
    by (simp add: r0_def y_def m_def)
  from fetchMonth_issues_load [OF this, of h True]
  obtain a where a: "snd r1 = snd r @ loadCall h y m True # a"
    by (auto simp add: r1_def r0_def)
  obtain b where b: "snd r2 = snd r1 @ b"
    using fetchMonth_trace_grows [of h y "m - 1" False r1] by (auto simp add: r2_def)
  obtain c where c: "snd r3 = snd r2 @ c"
    using fetchMonth_trace_grows [of h y "m + 1" False r2] by (auto simp add: r3_def)
  from a b c have "snd (monthEffect h r) = snd r @ loadCall h y m True # (a @ b @ c)"
    by (simp add: e)
  then show ?thesis
    unfolding y_def m_def by blast
qed

lemma monthEffect_prefetch_marks:
  assumes "loadResult h (fst (visibleMonth (fst r))) (snd (visibleMonth (fst r)) - 1) False
             = Inr ss"
  shows "monthKey (fst (visibleMonth (fst r))) (snd (visibleMonth (fst r)) - 1)
           \<in> cachedMonths (fst (monthEffect h r))"
proof -
  define y where "y = fst (visibleMonth (fst r))"
  define m where "m = snd (visibleMonth (fst r))"
  define r0 where "r0 = ((fst r)\<lparr>isLoading := True\<rparr>, snd r)"
  define r1 where "r1 = fetchMonth h y m True r0"
  define r2 where "r2 = fetchMonth h y (m - 1) False r1"
  define r3 where "r3 = fetchMonth h y (m + 1) False r2"
  have e: "monthEffect h r = ((fst r3)\<lparr>isLoading := False\<rparr>, snd r3)"
    unfolding monthEffect_def Let_def r3_def r2_def r1_def r0_def y_def m_def ..
  from assms have "monthKey y (m - 1) \<in> cachedMonths (fst r2)"
    unfolding r2_def y_def m_def by (rule fetchMonth_marks)
  moreover have "cachedMonths (fst r2) \<subseteq> cachedMonths (fst r3)"
    unfolding r3_def by (rule fetchMonth_keeps_markers)
  ultimately show ?thesis
    unfolding e y_def [symmetric] m_def [symmetric] by auto
qed

lemma getMonthRange_month_0:
  assumes "100 < Y"
  shows "getMonthRange z Y 0 0 = getMonthRange z (Y - 1) 12 0"
proof -
  from assms have "newDateYMD z Y (0 - 1) 1 = newDateYMD z (Y - 1) (12 - 1) 1"
    unfolding newDateYMD_def MakeDay_def Let_def by simp
  moreover from assms have "newDateYMD z Y 0 0 = newDateYMD z (Y - 1) 12 0"
    unfolding newDateYMD_def MakeDay_def Let_def by simp
  ultimately show ?thesis
    unfolding getMonthRange_def Let_def by simp
qed

text \<open>
  C10.  Showing January of year \<open>Y\<close> prefetches the month before under the key
  \<open>Y-0\<close>, while choosing December of \<open>Y - 1\<close> looks for the key \<open>(Y-1)-12\<close>.  The
  two keys are never equal, so after January has been shown (and December was not
  fetched before) December is still unmarked, and choosing it calls \<open>loadSessions\<close>
  again, although the prefetch under \<open>Y-0\<close> asked for the very days of that December
  (for a year after 100; \<open>new Date\<close> reads a year from 0 to 99 as 1900 + year).
\<close>

theorem prefetch_marker_differs_from_selection_key:
  assumes "monthKey (Y - 1) 12 \<notin> cachedMonths (fst r)"
  shows "monthKey Y 0 \<noteq> monthKey (Y - 1) 12
    \<and> (loadResult h Y 0 False = Inr ss
         \<longrightarrow> monthKey Y 0 \<in> cachedMonths (fst (handleMonthChange h Y 1 r)))
    \<and> monthKey (Y - 1) 12 \<notin> cachedMonths (fst (handleMonthChange h Y 1 r))
    \<and> (\<exists>rest. snd (handleMonthChange h' (Y - 1) 12 (handleMonthChange h Y 1 r))
          = snd (handleMonthChange h Y 1 r) @ loadCall h' (Y - 1) 12 True # rest)
    \<and> (100 < Y \<longrightarrow> getMonthRange z Y 0 0 = getMonthRange z (Y - 1) 12 0)"
proof (intro conjI impI)
  show "monthKey Y 0 \<noteq> monthKey (Y - 1) 12"
    by (rule monthKey_0_ne_12)
  show "monthKey Y 0 \<in> cachedMonths (fst (handleMonthChange h Y 1 r))"
    if "loadResult h Y 0 False = Inr ss"
    using that monthEffect_prefetch_marks [of h "((fst r)\<lparr>visibleMonth := (Y, 1)\<rparr>, snd r)" ss]
    by (simp add: handleMonthChange_def)
  show n: "monthKey (Y - 1) 12 \<notin> cachedMonths (fst (handleMonthChange h Y 1 r))"
    using assms monthEffect_markers [of h "((fst r)\<lparr>visibleMonth := (Y, 1)\<rparr>, snd r)"]
      monthKey_0_ne_12 [of Y] monthKey_1_ne_12 [of Y] monthKey_2_ne_12 [of Y]
    by (auto simp add: handleMonthChange_def)
  show "\<exists>rest. snd (handleMonthChange h' (Y - 1) 12 (handleMonthChange h Y 1 r))
          = snd (handleMonthChange h Y 1 r) @ loadCall h' (Y - 1) 12 True # rest"
    using n monthEffect_issues_load
      [of "((fst (handleMonthChange h Y 1 r))\<lparr>visibleMonth := (Y - 1, 12)\<rparr>,
            snd (handleMonthChange h Y 1 r))" h']
    by (simp add: handleMonthChange_def)
  show "getMonthRange z Y 0 0 = getMonthRange z (Y - 1) 12 0" if "100 < Y"
    using that by (rule getMonthRange_month_0)
qed

theorem prefetch_marker_differs_from_selection_key_witness:
  "monthKey (2024 - 1) 12 \<notin> cachedMonths (fst (initialState (2024, 3), []))
   \<and> monthKey 2024 0 \<noteq> monthKey (2024 - 1) 12
   \<and> loadResult (exampleHost 0 (Inr [])) 2024 0 False = Inr []
   \<and> monthKey 2024 0
       \<in> cachedMonths (fst (handleMonthChange (exampleHost 0 (Inr [])) 2024 1
            (initialState (2024, 3), [])))
   \<and> monthKey (2024 - 1) 12
       \<notin> cachedMonths (fst (handleMonthChange (exampleHost 0 (Inr [])) 2024 1
            (initialState (2024, 3), [])))
   \<and> (\<exists>rest. snd (handleMonthChange (exampleHost 0 (Inr [])) (2024 - 1) 12
          (handleMonthChange (exampleHost 0 (Inr [])) 2024 1 (initialState (2024, 3), [])))
        = snd (handleMonthChange (exampleHost 0 (Inr [])) 2024 1 (initialState (2024, 3), []))
          @ loadCall (exampleHost 0 (Inr [])) (2024 - 1) 12 True # rest)
   \<and> (100::int) < 2024
   \<and> getMonthRange 0 2024 0 0 = getMonthRange 0 (2024 - 1) 12 0"
  using prefetch_marker_differs_from_selection_key
    [of 2024 "(initialState (2024, 3), [])" "exampleHost 0 (Inr [])" "[]"
        "exampleHost 0 (Inr [])" 0]
  by (simp add: initialState_def exampleHost_def loadResult_def Let_def)

section \<open>Creating sessions\<close>

lemma createArg_repeat:
  assumes "repeatWeekly form" and "0 < repeatWeeks form"
  shows "createArg h form s e =
     Batch (map (\<lambda>j. repeatSession (tz h) form (baseSession h form s e) (s + j * 7 * msPerDay))
              [1..repeatWeeks form])"
  using assms unfolding createArg_def Let_def
  by (simp add: getWeeklyRepeatDates_eq comp_def)

lemma createArg_repeat_omits_base:
  assumes "repeatWeekly form" and "0 < repeatWeeks form"
  shows "\<exists>xs. createArg h form s e = Batch xs \<and> length xs = nat (repeatWeeks form)
           \<and> baseSession h form s e \<notin> set xs"
proof -
  have "recurring (baseSession h form s e) = None"
    by (simp add: baseSession_def)
  moreover have "recurring (repeatSession z form b d) = Some True" for z b d
    by (simp add: repeatSession_def Let_def)
  ultimately have "baseSession h form s e
      \<notin> set (map (\<lambda>j. repeatSession (tz h) form (baseSession h form s e) (s + j * 7 * msPerDay))
               [1..repeatWeeks form])"
    by (auto dest: arg_cong [where f = recurring])
  with assms show ?thesis
    by (simp add: createArg_repeat)
qed

lemma timeOfDay_setHours:
  "TimeWithinDay (LocalTime z (setHours z t hh mm)) = MakeTime hh mm 0 0 mod msPerDay"
  unfolding setHours_def LocalTime_def UTC_def MakeDate_def TimeWithinDay_def
  by (simp add: msPerDay_def)

lemma repeatSession_fields:
  "date (repeatSession z form base d) = dateKey z d"
  "getHours z (startISO (repeatSession z form base d))
     = getHours z (setHours z d0 (fst (startTime form)) (snd (startTime form)))"
  "getMinutes z (startISO (repeatSession z form base d))
     = getMinutes z (setHours z d0 (fst (startTime form)) (snd (startTime form)))"
  "getHours z (endISO (repeatSession z form base d))
     = getHours z (setHours z d0 (fst (endTime form)) (snd (endTime form)))"
  "getMinutes z (endISO (repeatSession z form base d))
     = getMinutes z (setHours z d0 (fst (endTime form)) (snd (endTime form)))"
  by (simp_all add: repeatSession_def Let_def getHours_def getMinutes_def toUTCISO_def
        timeOfDay_setHours)

lemma three_weeks: "[1..3] = [1, 2, 3]"
  by (simp add: upto.simps)

text \<open>
  With three weeks of repeats, seen from the start of the base session: the batch has three
  sessions, dated with the local days 7, 14 and 21 days after the local day of the start,
  and they start and end at the base session's local hour and minute.
\<close>

lemma createArg_three_weeks:
  assumes "repeatWeekly form" and "repeatWeeks form = 3"
    and "formDates (tz h) form = Some (s, e)"
  shows "\<exists>x1 x2 x3. createArg h form s e = Batch [x1, x2, x3]
    \<and> date x1 = dateKey (tz h) (s + 7 * msPerDay)
    \<and> date x2 = dateKey (tz h) (s + 14 * msPerDay)
    \<and> date x3 = dateKey (tz h) (s + 21 * msPerDay)
    \<and> map (\<lambda>x. (getHours (tz h) (startISO x), getMinutes (tz h) (startISO x))) [x1, x2, x3]
        = replicate 3 (getHours (tz h) s, getMinutes (tz h) s)
    \<and> map (\<lambda>x. (getHours (tz h) (endISO x), getMinutes (tz h) (endISO x))) [x1, x2, x3]
        = replicate 3 (getHours (tz h) e, getMinutes (tz h) e)"
proof -
  from assms(3) obtain d where
    s: "s = setHours (tz h) d (fst (startTime form)) (snd (startTime form))" and
    e: "e = setHours (tz h) d (fst (endTime form)) (snd (endTime form))"
    by (auto simp add: formDates_def split: option.splits)
  have "createArg h form s e =
      Batch (map (\<lambda>j. repeatSession (tz h) form (baseSession h form s e) (s + j * 7 * msPerDay))
               [1, 2, 3])"
    using assms(1,2) by (simp add: createArg_repeat three_weeks)
  then show ?thesis
    by (simp add: repeatSession_fields(1) repeatSession_fields(2-5) [where ?d0.0 = d]
          s [symmetric] e [symmetric] numeral_3_eq_3)
qed

subsection \<open>Validation\<close>

text \<open>
  C8.  When no client is selected, or the start computed from the form is not before the
  computed end, \<open>handleCreateSession\<close> only shows the error alert: the state is
  unchanged and there is no conflict check, no call of \<open>onCreateSession\<close> and no call
  of \<open>loadSessions\<close>.  (Without an \<open>onCreateSession\<close> prop it does nothing at all.)
\<close>

theorem handleCreateSession_rejects_before_io:
  assumes "form_clientId form = [] \<or> (formDates (tz h) form = Some (s, e) \<and> e \<le> s)"
  shows "handleCreateSession h form pc cc r =
     (case onCreateSession_prop h of
        None \<Rightarrow> r
      | Some create \<Rightarrow>
          (fst r, snd r @ [Alert ''Error''
             (if form_clientId form = [] then ''Please select a client or add clients first''
              else ''End time must be after start time'')]))"
  using assms unfolding handleCreateSession_def
  by (auto split: option.split)

theorem handleCreateSession_rejects_before_io_witness:
  "form_clientId
     \<lparr>form_clientId = [], form_date = ''2024-03-04'', startTime = (9, 0),
      endTime = (10, 0), form_status = Booked, form_location = [], form_notes = [],
      repeatWeekly = False, repeatWeeks = 1\<rparr> = []
   \<and> handleCreateSession (exampleHost 0 (Inr []))
       \<lparr>form_clientId = [], form_date = ''2024-03-04'', startTime = (9, 0),
        endTime = (10, 0), form_status = Booked, form_location = [], form_notes = [],
        repeatWeekly = False, repeatWeeks = 1\<rparr>
       PastContinue Override (initialState (2024, 3), [])
     = (initialState (2024, 3),
        [Alert ''Error'' ''Please select a client or add clients first''])
   \<and> formDates (tz (exampleHost 0 (Inr [])))
       \<lparr>form_clientId = ''c1'', form_date = ''2024-03-04'', startTime = (10, 0),
        endTime = (9, 0), form_status = Booked, form_location = [], form_notes = [],
        repeatWeekly = False, repeatWeeks = 1\<rparr>
     = Some (1709546400000, 1709542800000)
   \<and> (1709542800000 :: int) \<le> 1709546400000
   \<and> handleCreateSession (exampleHost 0 (Inr []))
       \<lparr>form_clientId = ''c1'', form_date = ''2024-03-04'', startTime = (10, 0),
        endTime = (9, 0), form_status = Booked, form_location = [], form_notes = [],
        repeatWeekly = False, repeatWeeks = 1\<rparr>
       PastContinue Override (initialState (2024, 3), [])
     = (initialState (2024, 3), [Alert ''Error'' ''End time must be after start time''])"
proof -
  have d: "formDates (tz (exampleHost 0 (Inr [])))
       \<lparr>form_clientId = ''c1'', form_date = ''2024-03-04'', startTime = (10, 0),
        endTime = (9, 0), form_status = Booked, form_location = [], form_notes = [],
        repeatWeekly = False, repeatWeeks = 1\<rparr>
     = Some (1709546400000, 1709542800000)"
    by code_simp
  show ?thesis
    using d
      handleCreateSession_rejects_before_io
        [of "\<lparr>form_clientId = [], form_date = ''2024-03-04'', startTime = (9, 0),
              endTime = (10, 0), form_status = Booked, form_location = [], form_notes = [],
              repeatWeekly = False, repeatWeeks = 1\<rparr>"
            "exampleHost 0 (Inr [])" 0 0 PastContinue Override "(initialState (2024, 3), [])"]
      handleCreateSession_rejects_before_io
        [of "\<lparr>form_clientId = ''c1'', form_date = ''2024-03-04'', startTime = (10, 0),
              endTime = (9, 0), form_status = Booked, form_location = [], form_notes = [],
              repeatWeekly = False, repeatWeeks = 1\<rparr>"
            "exampleHost 0 (Inr [])" 1709546400000 1709542800000 PastContinue Override
            "(initialState (2024, 3), [])"]
    by (simp add: exampleHost_def)
qed

subsection \<open>Conflicts\<close>

text \<open>
  C4.  The bucket of 2024-03-04 holds one session from 09:00Z to 10:00Z, and a session
  from 09:30Z to 10:30Z, which falls on the local day 2024-03-04, is to be created.
  \<open>checkConflicts\<close> returns exactly the booked session, and \<open>handleCreateSession\<close>
  reports one conflict and leaves the state as it is; \<open>createSessions\<close>, the only place
  that calls \<open>onCreateSession\<close>, is reached only when the user presses Override.  (A
  start in the past is asked about first, and Cancel there ends the request.)
\<close>

theorem conflict_reported_not_persisted:
  assumes "onCreateSession_prop h = Some create"
    and "form_clientId form \<noteq> []"
    and "formDates (tz h) form = Some (1709544600000, 1709548200000)"
    and "dateKey (tz h) 1709544600000 = ''2024-03-04''"
    and "sessionsByDate (fst r) ''2024-03-04'' = Some [booked]"
    and "startISO booked = 1709542800000"
    and "endISO booked = 1709546400000"
  shows "checkConflicts (tz h) (fst r) 1709544600000 1709548200000 None = [booked]
    \<and> handleCreateSession h form pc cc r =
       (let past = (isPast (now h) 1709544600000 \<and> \<not> readOnly h);
            r0 = (fst r, snd r @ (if past
                    then [Alert ''Warning'' ''This session is in the past. Continue?'']
                    else []));
            r1 = (fst r, snd r0 @ [CheckedConflicts [booked],
                    Alert ''Schedule Conflict''
                      ''This time conflicts with 1 existing session(s)''])
        in if past \<and> pc = PastCancel then r0
           else case cc of
                  ViewConflict \<Rightarrow>
                    (fst r, snd r1 @ (if hasOnSessionPress h then [OnSessionPress booked] else []))
                | PickDifferentTime \<Rightarrow> r1
                | Override \<Rightarrow> createSessions h form 1709544600000 1709548200000 r1)"
proof -
  have c: "checkConflicts (tz h) s 1709544600000 1709548200000 None = [booked]"
    if "sessionsByDate s ''2024-03-04'' = Some [booked]" for s
    using that assms(4,6,7)
    by (simp add: checkConflicts_def Let_def dateRangesOverlap_def toLocal_def)
  have m: "conflictMessage [booked] = ''This time conflicts with 1 existing session(s)''"
    by (simp add: conflictMessage_def numberToString_small)
  have p: "proceedWithCreate h form 1709544600000 1709548200000 cc (fst r, tr) =
      (case cc of
         ViewConflict \<Rightarrow>
           (fst r, tr @ [CheckedConflicts [booked],
                    Alert ''Schedule Conflict''
                      ''This time conflicts with 1 existing session(s)'']
                 @ (if hasOnSessionPress h then [OnSessionPress booked] else []))
       | PickDifferentTime \<Rightarrow>
           (fst r, tr @ [CheckedConflicts [booked],
                    Alert ''Schedule Conflict''
                      ''This time conflicts with 1 existing session(s)''])
       | Override \<Rightarrow> createSessions h form 1709544600000 1709548200000
           (fst r, tr @ [CheckedConflicts [booked],
                    Alert ''Schedule Conflict''
                      ''This time conflicts with 1 existing session(s)'']))" for tr
    unfolding proceedWithCreate_def
    by (simp add: c [OF assms(5)] m Let_def split: conflict_choice.split)
  have "handleCreateSession h form pc cc r =
       (let past = (isPast (now h) 1709544600000 \<and> \<not> readOnly h);
            r0 = (fst r, snd r @ (if past
                    then [Alert ''Warning'' ''This session is in the past. Continue?'']
                    else []));
            r1 = (fst r, snd r0 @ [CheckedConflicts [booked],
                    Alert ''Schedule Conflict''
                      ''This time conflicts with 1 existing session(s)''])
        in if past \<and> pc = PastCancel then r0
           else case cc of
                  ViewConflict \<Rightarrow>
                    (fst r, snd r1 @ (if hasOnSessionPress h then [OnSessionPress booked] else []))
                | PickDifferentTime \<Rightarrow> r1
                | Override \<Rightarrow> createSessions h form 1709544600000 1709548200000 r1)"
    unfolding handleCreateSession_def
    using assms(1,2,3) p [of "snd r"]
      p [of "snd r @ [Alert ''Warning'' ''This session is in the past. Continue?'']"]
    by (cases pc; cases cc) (simp_all add: Let_def)
  with c [OF assms(5)] show ?thesis
    by simp
qed

theorem conflict_reported_not_persisted_witness:
  "onCreateSession_prop (exampleHost 0 (Inr [])) = Some (\<lambda>arg. True)
   \<and> formDates (tz (exampleHost 0 (Inr [])))
       \<lparr>form_clientId = ''c1'', form_date = ''2024-03-04'', startTime = (9, 30),
        endTime = (10, 30), form_status = Booked, form_location = [], form_notes = [],
        repeatWeekly = False, repeatWeeks = 1\<rparr>
     = Some (1709544600000, 1709548200000)
   \<and> dateKey (tz (exampleHost 0 (Inr []))) 1709544600000 = ''2024-03-04''
   \<and> checkConflicts (tz (exampleHost 0 (Inr [])))
       ((initialState (2024, 3))\<lparr>sessionsByDate := [''2024-03-04'' \<mapsto>
          [mkSession ''s1'' ''c2'' ''2024-03-04'' 1709542800000 1709546400000]]\<rparr>)
       1709544600000 1709548200000 None
     = [mkSession ''s1'' ''c2'' ''2024-03-04'' 1709542800000 1709546400000]
   \<and> handleCreateSession (exampleHost 0 (Inr []))
       \<lparr>form_clientId = ''c1'', form_date = ''2024-03-04'', startTime = (9, 30),
        endTime = (10, 30), form_status = Booked, form_location = [], form_notes = [],
        repeatWeekly = False, repeatWeeks = 1\<rparr>
       PastContinue PickDifferentTime
       ((initialState (2024, 3))\<lparr>sessionsByDate := [''2024-03-04'' \<mapsto>
          [mkSession ''s1'' ''c2'' ''2024-03-04'' 1709542800000 1709546400000]]\<rparr>, [])
     = ((initialState (2024, 3))\<lparr>sessionsByDate := [''2024-03-04'' \<mapsto>
          [mkSession ''s1'' ''c2'' ''2024-03-04'' 1709542800000 1709546400000]]\<rparr>,
        [CheckedConflicts [mkSession ''s1'' ''c2'' ''2024-03-04'' 1709542800000 1709546400000],
         Alert ''Schedule Conflict'' ''This time conflicts with 1 existing session(s)''])"
proof -
  have d: "formDates (tz (exampleHost 0 (Inr [])))
       \<lparr>form_clientId = ''c1'', form_date = ''2024-03-04'', startTime = (9, 30),
        endTime = (10, 30), form_status = Booked, form_location = [], form_notes = [],
        repeatWeekly = False, repeatWeeks = 1\<rparr>
     = Some (1709544600000, 1709548200000)"
    by code_simp
  have k: "dateKey (tz (exampleHost 0 (Inr []))) 1709544600000 = ''2024-03-04''"
    by code_simp
  show ?thesis
    using d k
      conflict_reported_not_persisted
        [of "exampleHost 0 (Inr [])" "\<lambda>arg. True"
            "\<lparr>form_clientId = ''c1'', form_date = ''2024-03-04'', startTime = (9, 30),
              endTime = (10, 30), form_status = Booked, form_location = [], form_notes = [],
              repeatWeekly = False, repeatWeeks = 1\<rparr>"
            "((initialState (2024, 3))\<lparr>sessionsByDate := [''2024-03-04'' \<mapsto>
                [mkSession ''s1'' ''c2'' ''2024-03-04'' 1709542800000 1709546400000]]\<rparr>, [])"
            "mkSession ''s1'' ''c2'' ''2024-03-04'' 1709542800000 1709546400000"
            PastContinue PickDifferentTime]
    by (simp add: exampleHost_def mkSession_def isPast_def Let_def)
qed

subsection \<open>Weekly repeats\<close>

text \<open>
  C2 says that with weekly repeats the base session is persisted together with the
  repeats.  Here a session on 2024-03-04 from 09:00 to 10:00 is created with one weekly
  repeat, on a host at UTC with an empty cache: the one call of \<open>onCreateSession\<close>
  gets a batch of one session, that of 2024-03-11, and the session of 2024-03-04 is
  handed over nowhere.
\<close>

theorem weekly_repeat_batch_omits_base:
  "snd (handleCreateSession (exampleHost 0 (Inr []))
          \<lparr>form_clientId = ''c1'', form_date = ''2024-03-04'', startTime = (9, 0),
           endTime = (10, 0), form_status = Booked, form_location = [], form_notes = [],
           repeatWeekly = True, repeatWeeks = 1\<rparr>
          PastContinue Override (initialState (2024, 3), []))
   = [CheckedConflicts [],
      OnCreateSession
        (Batch [\<lparr>clientId = ''c1'', clientName = Some [], date = ''2024-03-11'',
                 startISO = 1710147600000, endISO = 1710151200000, status = Booked,
                 location = None, notes' = None, recurring = Some True\<rparr>]),
      LoadSessions 1708041600000 1713052800000
        \<lparr>filter_status = None, filter_clientId = None\<rparr>]"
  by code_simp

text \<open>
  C7 says that the repeats are dated 7, 14 and 21 days after the base session's date key.
  On a host five hours west of UTC, the form's date 2024-03-04 is read as midnight UTC,
  which is the evening of 2024-03-03 there, so 09:00 is set on 2024-03-03: the base
  session keeps the date key 2024-03-04 of the form, and the three repeats are dated
  2024-03-10, 2024-03-17 and 2024-03-24, that is 6, 13 and 20 days after it.
\<close>

theorem weekly_repeat_dates_west_of_utc:
  "formDates (- 18000000)
     \<lparr>form_clientId = ''c1'', form_date = ''2024-03-04'', startTime = (9, 0),
      endTime = (10, 0), form_status = Booked, form_location = [], form_notes = [],
      repeatWeekly = True, repeatWeeks = 3\<rparr>
     = Some (1709474400000, 1709478000000)
   \<and> date (baseSession (exampleHost (- 18000000) (Inr []))
        \<lparr>form_clientId = ''c1'', form_date = ''2024-03-04'', startTime = (9, 0),
         endTime = (10, 0), form_status = Booked, form_location = [], form_notes = [],
         repeatWeekly = True, repeatWeeks = 3\<rparr>
        1709474400000 1709478000000) = ''2024-03-04''
   \<and> createArg (exampleHost (- 18000000) (Inr []))
        \<lparr>form_clientId = ''c1'', form_date = ''2024-03-04'', startTime = (9, 0),
         endTime = (10, 0), form_status = Booked, form_location = [], form_notes = [],
         repeatWeekly = True, repeatWeeks = 3\<rparr>
        1709474400000 1709478000000
     = Batch
        [\<lparr>clientId = ''c1'', clientName = Some [], date = ''2024-03-10'',
          startISO = 1710079200000, endISO = 1710082800000, status = Booked,
          location = None, notes' = None, recurring = Some True\<rparr>,
         \<lparr>clientId = ''c1'', clientName = Some [], date = ''2024-03-17'',
          startISO = 1710684000000, endISO = 1710687600000, status = Booked,
          location = None, notes' = None, recurring = Some True\<rparr>,
         \<lparr>clientId = ''c1'', clientName = Some [], date = ''2024-03-24'',
          startISO = 1711288800000, endISO = 1711292400000, status = Booked,
          location = None, notes' = None, recurring = Some True\<rparr>]"
  by code_simp

end
